theory Spec2Isabelle
  imports Main
begin

section \<open>JavaScript values and the type tests of the handler\<close>

text \<open>
  The manual report handler (\<^verbatim>\<open>handlerSetup\<close> / \<^verbatim>\<open>reportManualError\<close>) decides what
  each of its optional arguments is by looking at its run-time type. The values it can
  be called with are modelled by their class: primitives, callables, plain objects
  (a framework request object, identified by a number) and references to
  \<^verbatim>\<open>ErrorMessage\<close> instances, which live in a store because the handler mutates the
  instance it is given in place.
\<close>

type_synonym addr = nat

datatype jsval =
    Undefined
  | Null
  | Boolean bool
  | Number int
  | Str string
  | Fn nat
  | Obj nat
  | Arr "jsval list"
  | Payload addr

text \<open>
  \<^verbatim>\<open>is.string\<close>, \<^verbatim>\<open>is.fn\<close> and \<^verbatim>\<open>is.object\<close> of the \<^verbatim>\<open>is\<close> package test the class
  tag of a value. An \<^verbatim>\<open>ErrorMessage\<close> instance has the tag \<^verbatim>\<open>[object Object]\<close>, so
  \<^verbatim>\<open>is.object\<close> holds of it as of any plain object; it fails on arrays, on
  \<^verbatim>\<open>null\<close> and on primitives.
\<close>

fun isString :: "jsval \<Rightarrow> bool" where
  "isString (Str s) = True"
| "isString v = False"

fun isFunction :: "jsval \<Rightarrow> bool" where
  "isFunction (Fn f) = True"
| "isFunction v = False"

fun isObject :: "jsval \<Rightarrow> bool" where
  "isObject (Obj n) = True"
| "isObject (Payload a) = True"
| "isObject v = False"

text \<open>The characters of a string value; only read under \<open>isString\<close>.\<close>

fun str_of :: "jsval \<Rightarrow> string" where
  "str_of (Str s) = s"
| "str_of v = []"

section \<open>The error payload\<close>

text \<open>
  The fields of an \<^verbatim>\<open>ErrorMessage\<close> instance the handler reads or writes. Any property of
  a JavaScript object may be missing, hence the options. \<open>autoGeneratedStackTrace\<close> is the
  property \<^verbatim>\<open>_autoGeneratedStackTrace\<close>: \<open>None\<close> when the property is absent.
\<close>

record error_message =
  serviceName :: "string option"
  serviceVersion :: "string option"
  message :: string
  autoGeneratedStackTrace :: "string option"
  httpRequest :: "string \<rightharpoonup> jsval"
  user :: "string option"

text \<open>
  Modelled from the spec: the class \<^verbatim>\<open>ErrorMessage\<close> (\<^verbatim>\<open>classes/error-message.js\<close>) is
  not among the sources. A new instance holds no service context, an empty message, no
  marker, no http context and no user.
\<close>

definition new_ErrorMessage :: error_message where
  "new_ErrorMessage =
     \<lparr>serviceName = None, serviceVersion = None, message = [],
      autoGeneratedStackTrace = None, httpRequest = Map.empty, user = None\<rparr>"

text \<open>
  Modelled from the spec: \<^verbatim>\<open>setMessage\<close> is missing from the sources; it overwrites
  whatever message the payload holds.
\<close>

definition setMessage :: "string \<Rightarrow> error_message \<Rightarrow> error_message" where
  "setMessage s em = em\<lparr>message := s\<rparr>"

text \<open>
  Modelled from the spec: \<^verbatim>\<open>setServiceContext\<close> is missing from the sources; it sets the
  service name and version of the payload.
\<close>

definition setServiceContext :: "string \<Rightarrow> string \<Rightarrow> error_message \<Rightarrow> error_message" where
  "setServiceContext svc ver em = em\<lparr>serviceName := Some svc, serviceVersion := Some ver\<rparr>"

text \<open>
  Modelled from the spec: \<^verbatim>\<open>consumeRequestInformation\<close> is missing from the sources; it
  merges the extracted request information into the http context of the payload, the
  extracted value winning for every key the extraction result has.
\<close>

definition consumeRequestInformation ::
  "(string \<rightharpoonup> jsval) \<Rightarrow> error_message \<Rightarrow> error_message" where
  "consumeRequestInformation info em = em\<lparr>httpRequest := httpRequest em ++ info\<rparr>"

text \<open>
  The test \<^verbatim>\<open>if (err._autoGeneratedStackTrace)\<close> is a truthiness test: an absent property
  and the empty string both fail it.
\<close>

definition has_marker :: "error_message \<Rightarrow> bool" where
  "has_marker em = (case autoGeneratedStackTrace em of None \<Rightarrow> False | Some s \<Rightarrow> s \<noteq> [])"

section \<open>Collaborators and the observable state\<close>

record service_context =
  service :: string
  version :: string

datatype exn = Thrown string

text \<open>
  What the handler is bound to or requires: the configuration's
  \<^verbatim>\<open>getServiceContext()\<close>, \<^verbatim>\<open>populateErrorMessage\<close> (which may throw) and
  \<^verbatim>\<open>manualRequestInformationExtractor\<close>. None of the three is among the sources, so
  each is a parameter. By their interfaces the populator only changes the payload it is
  given and the extractor is a function of the request that always returns.
\<close>

record collaborators =
  getServiceContext :: service_context
  populateErrorMessage :: "jsval \<Rightarrow> error_message \<Rightarrow> exn + error_message"
  manualRequestInformationExtractor :: "jsval \<Rightarrow> (string \<rightharpoonup> jsval)"

text \<open>
  The state a call can change: the store of \<^verbatim>\<open>ErrorMessage\<close> instances (the address of
  an instance is its index), the lines given to \<^verbatim>\<open>logger.warn\<close>, and the calls of
  \<^verbatim>\<open>client.sendError\<close>, each with the payload reference and the callback value it got.
\<close>

record world =
  heap :: "error_message list"
  warnings :: "string list"
  sent :: "(addr \<times> jsval) list"

definition update_payload :: "addr \<Rightarrow> (error_message \<Rightarrow> error_message) \<Rightarrow> world \<Rightarrow> world" where
  "update_payload a f st = st\<lparr>heap := (heap st)[a := f (heap st ! a)]\<rparr>"

definition logger_warn :: "string \<Rightarrow> world \<Rightarrow> world" where
  "logger_warn line st = st\<lparr>warnings := warnings st @ [line]\<rparr>"

definition sendError :: "addr \<Rightarrow> jsval \<Rightarrow> world \<Rightarrow> world" where
  "sendError a cb st = st\<lparr>sent := sent st @ [(a, cb)]\<rparr>"

text \<open>
  \<^verbatim>\<open>err instanceof ErrorMessage\<close>: a reference to an instance of the store. A
  \<open>Payload\<close> reference beyond the store denotes no instance and is a raw value like any
  other.
\<close>

definition is_ErrorMessage :: "world \<Rightarrow> jsval \<Rightarrow> bool" where
  "is_ErrorMessage st v = (case v of Payload a \<Rightarrow> a < length (heap st) | _ \<Rightarrow> False)"

fun addr_of :: "jsval \<Rightarrow> addr" where
  "addr_of (Payload a) = a"
| "addr_of v = 0"

section \<open>reportManualError\<close>

subsection \<open>Lines 61 to 76: the optional arguments\<close>

record args =
  request :: jsval
  additionalMessage :: jsval
  callback :: jsval

text \<open>
  Each assignment of the source is one update, in the source's order, reading the
  variables as they are at that point.
\<close>

definition shift_string_request :: "args \<Rightarrow> args" where
  "shift_string_request a0 =
     (let a1 = a0\<lparr>callback := additionalMessage a0\<rparr>;
          a2 = a1\<lparr>additionalMessage := request a1\<rparr>;
          a3 = a2\<lparr>request := Undefined\<rparr>
      in a3)"

definition shift_function_request :: "args \<Rightarrow> args" where
  "shift_function_request a0 =
     (let a1 = a0\<lparr>callback := request a0\<rparr>;
          a2 = a1\<lparr>request := Undefined\<rparr>;
          a3 = a2\<lparr>additionalMessage := Undefined\<rparr>
      in a3)"

definition shift_function_message :: "args \<Rightarrow> args" where
  "shift_function_message a0 =
     (let a1 = a0\<lparr>callback := additionalMessage a0\<rparr>;
          a2 = a1\<lparr>additionalMessage := Undefined\<rparr>
      in a2)"

definition normalize_args :: "args \<Rightarrow> args" where
  "normalize_args a0 =
     (let a1 = (if isString (request a0) then shift_string_request a0
                else if isFunction (request a0) then shift_function_request a0
                else a0)
      in if isFunction (additionalMessage a1) then shift_function_message a1 else a1)"

subsection \<open>Lines 78 to 100: the payload that is reported\<close>

text \<open>The line of lines 89 to 92, with the payload's message between double quotes.\<close>

definition missing_trace_warning :: "string \<Rightarrow> string" where
  "missing_trace_warning msg =
     ''Encountered a manually constructed error with message '' @ [CHR 0x22] @ msg @
     [CHR 0x22] @ '' but without a construction site '' @
     ''stack trace.  This error might not be visible in the '' @
     ''error reporting console.''"

text \<open>
  Lines 83 to 87, taken when the marker is there: the message becomes the message, a
  newline and the marker, and the property is deleted.
\<close>

definition consume_marker :: "error_message \<Rightarrow> error_message" where
  "consume_marker em =
     (setMessage (message em @ [CHR 0x0A] @ the (autoGeneratedStackTrace em)) em)
        \<lparr>autoGeneratedStackTrace := None\<rparr>"

definition resolve_payload :: "collaborators \<Rightarrow> world \<Rightarrow> jsval \<Rightarrow> exn + (world \<times> addr)" where
  "resolve_payload env st err =
     (if is_ErrorMessage st err then
        (let a = addr_of err in
         if has_marker (heap st ! a)
         then Inr (update_payload a consume_marker st, a)
         else Inr (logger_warn (missing_trace_warning (message (heap st ! a))) st, a))
      else
        (let em = setServiceContext (service (getServiceContext env))
                    (version (getServiceContext env)) new_ErrorMessage
         in case populateErrorMessage env err em of
              Inl e \<Rightarrow> Inl e
            | Inr em' \<Rightarrow> Inr (st\<lparr>heap := heap st @ [em']\<rparr>, length (heap st))))"

subsection \<open>Lines 102 to 108: request information and message override\<close>

definition merge_request :: "collaborators \<Rightarrow> jsval \<Rightarrow> addr \<Rightarrow> world \<Rightarrow> world" where
  "merge_request env req em st =
     (if isObject req
      then update_payload em
             (consumeRequestInformation (manualRequestInformationExtractor env req)) st
      else st)"

definition override_message :: "jsval \<Rightarrow> addr \<Rightarrow> world \<Rightarrow> world" where
  "override_message msg em st =
     (if isString msg then update_payload em (setMessage (str_of msg)) st else st)"

subsection \<open>Lines 59 to 112: the whole call\<close>

text \<open>
  The result is the exception the populator threw, or the state after the call with the
  reference the call returns.
\<close>

definition reportManualError ::
  "collaborators \<Rightarrow> world \<Rightarrow> jsval \<Rightarrow> jsval \<Rightarrow> jsval \<Rightarrow> jsval \<Rightarrow> exn + (world \<times> addr)" where
  "reportManualError env st err req msg cb =
     (let n = normalize_args \<lparr>request = req, additionalMessage = msg, callback = cb\<rparr>
      in case resolve_payload env st err of
           Inl e \<Rightarrow> Inl e
         | Inr (st1, em) \<Rightarrow>
             (let st2 = merge_request env (request n) em st1;
                  st3 = override_message (additionalMessage n) em st2;
                  st4 = sendError em (callback n) st3
              in Inr (st4, em)))"

text \<open>\<^verbatim>\<open>handlerSetup\<close> binds the collaborators and returns the handler.\<close>

definition handlerSetup ::
  "collaborators \<Rightarrow> world \<Rightarrow> jsval \<Rightarrow> jsval \<Rightarrow> jsval \<Rightarrow> jsval \<Rightarrow> exn + (world \<times> addr)" where
  "handlerSetup env = reportManualError env"

subsection \<open>Lines 78 to 112 on resolved arguments\<close>

text \<open>
  What the call does from line 78 on, as a function of the three variables
  \<^verbatim>\<open>request\<close>, \<^verbatim>\<open>additionalMessage\<close> and \<^verbatim>\<open>callback\<close> as they are after line 76.
\<close>

definition report_resolved :: "collaborators \<Rightarrow> world \<Rightarrow> jsval \<Rightarrow> args \<Rightarrow> exn + (world \<times> addr)" where
  "report_resolved env st err n =
     (case resolve_payload env st err of
        Inl e \<Rightarrow> Inl e
      | Inr (st1, em) \<Rightarrow>
          (let st2 = merge_request env (request n) em st1;
               st3 = override_message (additionalMessage n) em st2;
               st4 = sendError em (callback n) st3
           in Inr (st4, em)))"

section \<open>Values that cannot be inspected\<close>








section \<open>The resolution rules in the words of the specification\<close>

text \<open>
  Rule 1 and rule 2 exclude each other (rule 2 starts with "else"); rule 3 is applied to
  what they leave.
\<close>

definition spec_rule_1_2 :: "args \<Rightarrow> args" where
  "spec_rule_1_2 a =
     (if isString (request a)
      then \<lparr>request = Undefined, additionalMessage = request a, callback = additionalMessage a\<rparr>
      else if isFunction (request a)
      then \<lparr>request = Undefined, additionalMessage = Undefined, callback = request a\<rparr>
      else a)"

definition spec_rule_3 :: "args \<Rightarrow> args" where
  "spec_rule_3 a =
     (if isFunction (additionalMessage a)
      then \<lparr>request = request a, additionalMessage = Undefined, callback = additionalMessage a\<rparr>
      else a)"

section \<open>Example collaborators and payloads\<close>

text \<open>
  A configuration, a populator that throws on \<^verbatim>\<open>undefined\<close> and \<^verbatim>\<open>null\<close> and otherwise
  writes the message, and an extractor that returns the method \<^verbatim>\<open>GET\<close> and the url
  \<^verbatim>\<open>/x\<close>; a payload with a generated marker, and a payload built by hand with neither
  marker nor service context.
\<close>

definition example_populator :: "jsval \<Rightarrow> error_message \<Rightarrow> exn + error_message" where
  "example_populator v em =
     (if v = Undefined \<or> v = Null then Inl (Thrown ''cannot populate'')
      else Inr (setMessage (str_of v) em))"

definition example_extractor :: "jsval \<Rightarrow> (string \<rightharpoonup> jsval)" where
  "example_extractor v = [''method'' \<mapsto> Str ''GET'', ''url'' \<mapsto> Str ''/x'']"

definition example_collaborators :: collaborators where
  "example_collaborators =
     \<lparr>getServiceContext = \<lparr>service = ''node'', version = ''1.0''\<rparr>,
      populateErrorMessage = example_populator,
      manualRequestInformationExtractor = example_extractor\<rparr>"

definition marked_payload :: error_message where
  "marked_payload =
     \<lparr>serviceName = Some ''node'', serviceVersion = Some ''1.0'', message = ''M'',
      autoGeneratedStackTrace = Some ''S'',
      httpRequest = [''method'' \<mapsto> Str ''POST'', ''userAgent'' \<mapsto> Str ''curl''],
      user = None\<rparr>"

definition hand_built_payload :: error_message where
  "hand_built_payload =
     \<lparr>serviceName = None, serviceVersion = None, message = ''by hand'',
      autoGeneratedStackTrace = None, httpRequest = Map.empty, user = Some ''root''\<rparr>"

definition example_world :: world where
  "example_world = \<lparr>heap = [marked_payload, hand_built_payload], warnings = [], sent = []\<rparr>"

section \<open>Argument resolution\<close>

lemma shift_string_request_eq:
  "shift_string_request a =
     \<lparr>request = Undefined, additionalMessage = request a, callback = additionalMessage a\<rparr>"
  by (simp add: shift_string_request_def Let_def)

lemma shift_function_request_eq:
  "shift_function_request a =
     \<lparr>request = Undefined, additionalMessage = Undefined, callback = request a\<rparr>"
  by (simp add: shift_function_request_def Let_def)

lemma shift_function_message_eq:
  "shift_function_message a =
     \<lparr>request = request a, additionalMessage = Undefined, callback = additionalMessage a\<rparr>"
  by (simp add: shift_function_message_def Let_def)

section \<open>The stages of a call\<close>

lemma resolve_payload_marked:
  assumes "a < length (heap st)" and "has_marker (heap st ! a)"
  shows "resolve_payload env st (Payload a) = Inr (update_payload a consume_marker st, a)"
  using assms by (simp add: resolve_payload_def is_ErrorMessage_def)

lemma resolve_payload_unmarked:
  assumes "a < length (heap st)" and "\<not> has_marker (heap st ! a)"
  shows "resolve_payload env st (Payload a) =
           Inr (logger_warn (missing_trace_warning (message (heap st ! a))) st, a)"
  using assms by (simp add: resolve_payload_def is_ErrorMessage_def)

lemma resolve_payload_raw:
  assumes "\<not> is_ErrorMessage st err"
  shows "resolve_payload env st err =
           (case populateErrorMessage env err
                   (setServiceContext (service (getServiceContext env))
                      (version (getServiceContext env)) new_ErrorMessage) of
              Inl e \<Rightarrow> Inl e
            | Inr em' \<Rightarrow> Inr (st\<lparr>heap := heap st @ [em']\<rparr>, length (heap st)))"
  using assms by (simp add: resolve_payload_def)

lemma is_ErrorMessage_cases:
  assumes "is_ErrorMessage st err"
  obtains a where "err = Payload a" and "a < length (heap st)"
  using assms by (cases err) (simp_all add: is_ErrorMessage_def)

lemma resolve_payload_in_store:
  assumes "resolve_payload env st err = Inr (st1, a)"
  shows "a < length (heap st1)"
proof (cases "is_ErrorMessage st err")
  case True
  then obtain b where b: "err = Payload b" "b < length (heap st)"
    by (rule is_ErrorMessage_cases)
  show ?thesis
  proof (cases "has_marker (heap st ! b)")
    case True
    with assms b show ?thesis
      by (auto simp: resolve_payload_marked update_payload_def)
  next
    case False
    with assms b show ?thesis
      by (auto simp: resolve_payload_unmarked logger_warn_def)
  qed
next
  case False
  with assms show ?thesis
    by (auto simp: resolve_payload_raw split: sum.splits)
qed

lemma resolve_payload_sent:
  assumes "resolve_payload env st err = Inr (st1, a)"
  shows "sent st1 = sent st"
  using assms
  by (auto simp: resolve_payload_def update_payload_def logger_warn_def Let_def
      split: if_splits sum.splits)

lemma resolve_payload_warnings:
  assumes "resolve_payload env st err = Inr (st1, a)"
  shows "length (warnings st1) \<le> Suc (length (warnings st))"
  using assms
  by (auto simp: resolve_payload_def update_payload_def logger_warn_def Let_def
      split: if_splits sum.splits)

lemma report_after_resolve:
  assumes "resolve_payload env st err = Inr (st1, a)"
  shows "reportManualError env st err r m c =
           Inr (sendError a (callback (normalize_args \<lparr>request = r, additionalMessage = m, callback = c\<rparr>))
                  (override_message
                     (additionalMessage (normalize_args \<lparr>request = r, additionalMessage = m, callback = c\<rparr>)) a
                     (merge_request env
                        (request (normalize_args \<lparr>request = r, additionalMessage = m, callback = c\<rparr>)) a st1)),
                a)"
  using assms by (simp add: reportManualError_def Let_def)


lemma report_returns:
  assumes "reportManualError env st err r m c = Inr (st', a)"
  obtains st1 where "resolve_payload env st err = Inr (st1, a)"
  using assms by (auto simp: reportManualError_def Let_def split: sum.splits)

lemma finish_heap:
  assumes "a < length (heap st1)"
  shows "heap (sendError a cb (override_message mm a (merge_request env rr a st1))) ! a =
           (if isString mm then setMessage (str_of mm) else id)
             ((if isObject rr
               then consumeRequestInformation (manualRequestInformationExtractor env rr)
               else id) (heap st1 ! a))"
  using assms
  by (simp add: sendError_def override_message_def merge_request_def update_payload_def)

lemma finish_length:
  "length (heap (sendError a cb (override_message mm a (merge_request env rr a st1)))) =
     length (heap st1)"
  by (simp add: sendError_def override_message_def merge_request_def update_payload_def)

lemma finish_sent:
  "sent (sendError a cb (override_message mm a (merge_request env rr a st1))) =
     sent st1 @ [(a, cb)]"
  by (simp add: sendError_def override_message_def merge_request_def update_payload_def)

lemma finish_warnings:
  "warnings (sendError a cb (override_message mm a (merge_request env rr a st1))) =
     warnings st1"
  by (simp add: sendError_def override_message_def merge_request_def update_payload_def)

lemma consume_marker_fields:
  "message (consume_marker em) = message em @ [CHR 0x0A] @ the (autoGeneratedStackTrace em)"
  "autoGeneratedStackTrace (consume_marker em) = None"
  "httpRequest (consume_marker em) = httpRequest em"
  "serviceName (consume_marker em) = serviceName em"
  "serviceVersion (consume_marker em) = serviceVersion em"
  by (simp_all add: consume_marker_def setMessage_def)

lemma final_fields:
  "message ((if isString mm then setMessage (str_of mm) else id)
       ((if isObject rr then consumeRequestInformation info else id) em)) =
     (if isString mm then str_of mm else message em)"
  "autoGeneratedStackTrace ((if isString mm then setMessage (str_of mm) else id)
       ((if isObject rr then consumeRequestInformation info else id) em)) =
     autoGeneratedStackTrace em"
  "httpRequest ((if isString mm then setMessage (str_of mm) else id)
       ((if isObject rr then consumeRequestInformation info else id) em)) =
     (if isObject rr then httpRequest em ++ info else httpRequest em)"
  "serviceName ((if isString mm then setMessage (str_of mm) else id)
       ((if isObject rr then consumeRequestInformation info else id) em)) = serviceName em"
  "serviceVersion ((if isString mm then setMessage (str_of mm) else id)
       ((if isObject rr then consumeRequestInformation info else id) em)) = serviceVersion em"
  by (simp_all add: setMessage_def consumeRequestInformation_def)

lemmas arg_simps = normalize_args_def shift_string_request_eq shift_function_request_eq
  shift_function_message_eq Let_def

lemmas example_simps = example_world_def marked_payload_def hand_built_payload_def
  example_collaborators_def example_populator_def example_extractor_def

lemmas run_simps = reportManualError_def resolve_payload_def is_ErrorMessage_def has_marker_def
  update_payload_def consume_marker_def setMessage_def setServiceContext_def new_ErrorMessage_def
  consumeRequestInformation_def merge_request_def override_message_def sendError_def
  logger_warn_def

section \<open>Ordinary and unreadable arguments\<close>

lemma report_is_resolved:
  "reportManualError env st err r m c =
     report_resolved env st err
       (normalize_args \<lparr>request = r, additionalMessage = m, callback = c\<rparr>)"
  by (simp add: reportManualError_def report_resolved_def Let_def)

lemma report_resolved_effect:
  assumes "report_resolved env st err n = Inr (st', a)"
  shows "\<exists>st1. resolve_payload env st err = Inr (st1, a) \<and>
           sent st' = sent st @ [(a, callback n)] \<and>
           warnings st' = warnings st1 \<and>
           heap st' ! a =
             (if isString (additionalMessage n) then setMessage (str_of (additionalMessage n))
              else id)
               ((if isObject (request n)
                 then consumeRequestInformation (manualRequestInformationExtractor env (request n))
                 else id) (heap st1 ! a))"
proof -
  from assms obtain st1 where res: "resolve_payload env st err = Inr (st1, a)"
    and st': "st' = sendError a (callback n)
                (override_message (additionalMessage n) a (merge_request env (request n) a st1))"
    by (auto simp: report_resolved_def Let_def split: sum.splits)
  have "a < length (heap st1)"
    using res by (rule resolve_payload_in_store)
  then show ?thesis
    using res resolve_payload_sent [OF res]
    by (simp add: st' finish_heap finish_sent finish_warnings)
qed










section \<open>Argument resolution in a call\<close>

text \<open>
  C1. Every call \<open>reportManualError env st err r m c\<close> resolves its optional arguments in
  three steps and goes on with the result: a string in the request slot moves to the
  message slot, the old message value moves to the callback slot and the request becomes
  absent; otherwise a callable in the request slot moves to the callback slot and request
  and message become absent; afterwards a callable in the message slot moves to the
  callback slot and the message becomes absent. The call is lines 78 to 112 run on the
  triple these rules leave.
\<close>

theorem report_resolves_in_three_steps:
  "normalize_args \<lparr>request = r, additionalMessage = m, callback = c\<rparr> =
     spec_rule_3 (spec_rule_1_2 \<lparr>request = r, additionalMessage = m, callback = c\<rparr>) \<and>
   reportManualError env st err r m c =
     report_resolved env st err
       (spec_rule_3 (spec_rule_1_2 \<lparr>request = r, additionalMessage = m, callback = c\<rparr>))"
proof -
  have "normalize_args \<lparr>request = r, additionalMessage = m, callback = c\<rparr> =
     spec_rule_3 (spec_rule_1_2 \<lparr>request = r, additionalMessage = m, callback = c\<rparr>)"
    by (simp add: arg_simps spec_rule_1_2_def spec_rule_3_def)
  then show ?thesis
    by (simp add: report_is_resolved)
qed

section \<open>The eight call shapes\<close>

text \<open>
  C8. With a request object \<open>Obj q\<close>, a message \<open>Str s\<close>, a callback \<open>Fn f\<close> and
  \<open>Undefined\<close> for every omitted argument, each of the eight call shapes
  \<^verbatim>\<open>report(err)\<close>, \<^verbatim>\<open>report(err, req)\<close>, \<^verbatim>\<open>report(err, msg)\<close>, \<^verbatim>\<open>report(err, cb)\<close>,
  \<^verbatim>\<open>report(err, req, msg)\<close>, \<^verbatim>\<open>report(err, req, cb)\<close>, \<^verbatim>\<open>report(err, msg, cb)\<close> and
  \<^verbatim>\<open>report(err, req, msg, cb)\<close> resolves to the intended request, message and callback,
  and the call is lines 78 to 112 run on exactly these three. Resolving any triple a second
  time changes nothing, and calling with an already resolved triple is the same call.
\<close>

theorem eight_call_shapes_of_report:
  "normalize_args \<lparr>request = Undefined, additionalMessage = Undefined, callback = Undefined\<rparr> =
     \<lparr>request = Undefined, additionalMessage = Undefined, callback = Undefined\<rparr> \<and>
   normalize_args \<lparr>request = Obj q, additionalMessage = Undefined, callback = Undefined\<rparr> =
     \<lparr>request = Obj q, additionalMessage = Undefined, callback = Undefined\<rparr> \<and>
   normalize_args \<lparr>request = Str s, additionalMessage = Undefined, callback = Undefined\<rparr> =
     \<lparr>request = Undefined, additionalMessage = Str s, callback = Undefined\<rparr> \<and>
   normalize_args \<lparr>request = Fn f, additionalMessage = Undefined, callback = Undefined\<rparr> =
     \<lparr>request = Undefined, additionalMessage = Undefined, callback = Fn f\<rparr> \<and>
   normalize_args \<lparr>request = Obj q, additionalMessage = Str s, callback = Undefined\<rparr> =
     \<lparr>request = Obj q, additionalMessage = Str s, callback = Undefined\<rparr> \<and>
   normalize_args \<lparr>request = Obj q, additionalMessage = Fn f, callback = Undefined\<rparr> =
     \<lparr>request = Obj q, additionalMessage = Undefined, callback = Fn f\<rparr> \<and>
   normalize_args \<lparr>request = Str s, additionalMessage = Fn f, callback = Undefined\<rparr> =
     \<lparr>request = Undefined, additionalMessage = Str s, callback = Fn f\<rparr> \<and>
   normalize_args \<lparr>request = Obj q, additionalMessage = Str s, callback = Fn f\<rparr> =
     \<lparr>request = Obj q, additionalMessage = Str s, callback = Fn f\<rparr> \<and>
   reportManualError env st err Undefined Undefined Undefined =
     report_resolved env st err
       \<lparr>request = Undefined, additionalMessage = Undefined, callback = Undefined\<rparr> \<and>
   reportManualError env st err (Obj q) Undefined Undefined =
     report_resolved env st err
       \<lparr>request = Obj q, additionalMessage = Undefined, callback = Undefined\<rparr> \<and>
   reportManualError env st err (Str s) Undefined Undefined =
     report_resolved env st err
       \<lparr>request = Undefined, additionalMessage = Str s, callback = Undefined\<rparr> \<and>
   reportManualError env st err (Fn f) Undefined Undefined =
     report_resolved env st err
       \<lparr>request = Undefined, additionalMessage = Undefined, callback = Fn f\<rparr> \<and>
   reportManualError env st err (Obj q) (Str s) Undefined =
     report_resolved env st err
       \<lparr>request = Obj q, additionalMessage = Str s, callback = Undefined\<rparr> \<and>
   reportManualError env st err (Obj q) (Fn f) Undefined =
     report_resolved env st err
       \<lparr>request = Obj q, additionalMessage = Undefined, callback = Fn f\<rparr> \<and>
   reportManualError env st err (Str s) (Fn f) Undefined =
     report_resolved env st err
       \<lparr>request = Undefined, additionalMessage = Str s, callback = Fn f\<rparr> \<and>
   reportManualError env st err (Obj q) (Str s) (Fn f) =
     report_resolved env st err
       \<lparr>request = Obj q, additionalMessage = Str s, callback = Fn f\<rparr> \<and>
   normalize_args (normalize_args \<lparr>request = r, additionalMessage = m, callback = c\<rparr>) =
     normalize_args \<lparr>request = r, additionalMessage = m, callback = c\<rparr> \<and>
   reportManualError env st err
       (request (normalize_args \<lparr>request = r, additionalMessage = m, callback = c\<rparr>))
       (additionalMessage (normalize_args \<lparr>request = r, additionalMessage = m, callback = c\<rparr>))
       (callback (normalize_args \<lparr>request = r, additionalMessage = m, callback = c\<rparr>)) =
     reportManualError env st err r m c"
  by (simp add: report_is_resolved arg_simps)

section \<open>The construction-site marker\<close>

text \<open>
  C2. A payload instance that carries a generated stack trace marker \<open>S\<close> and the message
  \<open>M\<close>: the payload stage of the call (lines 78 to 94) leaves the message \<open>M\<close>, a
  newline and \<open>S\<close> and removes the marker from the instance. After the whole call the
  marker is gone and the message is that text, unless the same call overrides the message
  (C3). Reporting the same instance a second time does not append the trace again: the
  message stays what the first call left, unless the second call overrides it. A marker is
  carried when the truthiness test of line 82 holds, so \<open>S\<close> is not the empty string.
\<close>

theorem marker_consumed_once:
  assumes "a < length (heap st)"
    and "autoGeneratedStackTrace (heap st ! a) = Some S" and "S \<noteq> []"
    and "message (heap st ! a) = M"
  shows "\<exists>st0 st1.
           resolve_payload env st (Payload a) = Inr (st0, a) \<and>
           message (heap st0 ! a) = M @ [CHR 0x0A] @ S \<and>
           autoGeneratedStackTrace (heap st0 ! a) = None \<and>
           reportManualError env st (Payload a) r m c = Inr (st1, a) \<and>
           autoGeneratedStackTrace (heap st1 ! a) = None \<and>
           message (heap st1 ! a) =
             (if isString (additionalMessage (normalize_args \<lparr>request = r, additionalMessage = m, callback = c\<rparr>))
              then str_of (additionalMessage (normalize_args \<lparr>request = r, additionalMessage = m, callback = c\<rparr>))
              else M @ [CHR 0x0A] @ S) \<and>
           (\<exists>st2. reportManualError env st1 (Payload a) r' m' c' = Inr (st2, a) \<and>
              autoGeneratedStackTrace (heap st2 ! a) = None \<and>
              message (heap st2 ! a) =
                (if isString (additionalMessage (normalize_args \<lparr>request = r', additionalMessage = m', callback = c'\<rparr>))
                 then str_of (additionalMessage (normalize_args \<lparr>request = r', additionalMessage = m', callback = c'\<rparr>))
                 else message (heap st1 ! a)))"
proof -
  let ?n = "normalize_args \<lparr>request = r, additionalMessage = m, callback = c\<rparr>"
  let ?n' = "normalize_args \<lparr>request = r', additionalMessage = m', callback = c'\<rparr>"
  let ?st0 = "update_payload a consume_marker st"
  let ?st1 = "sendError a (callback ?n)
                (override_message (additionalMessage ?n) a (merge_request env (request ?n) a ?st0))"
  let ?w = "logger_warn (missing_trace_warning (message (heap ?st1 ! a))) ?st1"
  let ?st2 = "sendError a (callback ?n')
                (override_message (additionalMessage ?n') a (merge_request env (request ?n') a ?w))"
  have marked: "has_marker (heap st ! a)"
    using assms by (simp add: has_marker_def)
  have res0: "resolve_payload env st (Payload a) = Inr (?st0, a)"
    using assms(1) marked by (rule resolve_payload_marked)
  have in0: "a < length (heap ?st0)"
    using assms(1) by (simp add: update_payload_def)
  have cell0: "heap ?st0 ! a = consume_marker (heap st ! a)"
    using assms(1) by (simp add: update_payload_def)
  have msg0: "message (heap ?st0 ! a) = M @ [CHR 0x0A] @ S"
    using assms by (simp add: cell0 consume_marker_fields)
  have mark0: "autoGeneratedStackTrace (heap ?st0 ! a) = None"
    by (simp add: cell0 consume_marker_fields)
  have rep1: "reportManualError env st (Payload a) r m c = Inr (?st1, a)"
    using res0 by (rule report_after_resolve)
  have in1: "a < length (heap ?st1)"
    using in0 by (simp only: finish_length)
  have mark1: "autoGeneratedStackTrace (heap ?st1 ! a) = None"
    using mark0 by (simp only: finish_heap [OF in0] final_fields)
  have msg1: "message (heap ?st1 ! a) =
      (if isString (additionalMessage ?n) then str_of (additionalMessage ?n) else M @ [CHR 0x0A] @ S)"
    using msg0 by (simp only: finish_heap [OF in0] final_fields)
  have unmarked: "\<not> has_marker (heap ?st1 ! a)"
    using mark1 by (simp add: has_marker_def)
  have res1: "resolve_payload env ?st1 (Payload a) = Inr (?w, a)"
    using in1 unmarked by (rule resolve_payload_unmarked)
  have inw: "a < length (heap ?w)"
    using in1 by (simp add: logger_warn_def)
  have cellw: "heap ?w = heap ?st1"
    by (simp add: logger_warn_def)
  have rep2: "reportManualError env ?st1 (Payload a) r' m' c' = Inr (?st2, a)"
    using res1 by (rule report_after_resolve)
  have mark2: "autoGeneratedStackTrace (heap ?st2 ! a) = None"
    using mark1 by (simp only: finish_heap [OF inw] final_fields cellw)
  have msg2: "message (heap ?st2 ! a) =
      (if isString (additionalMessage ?n') then str_of (additionalMessage ?n')
       else message (heap ?st1 ! a))"
    by (simp only: finish_heap [OF inw] final_fields cellw)
  from res0 msg0 mark0 rep1 mark1 msg1 rep2 mark2 msg2 show ?thesis
    by blast
qed

theorem marker_consumed_once_witness:
  "(0::nat) < length (heap example_world) \<and>
   autoGeneratedStackTrace (heap example_world ! 0) = Some ''S'' \<and> ''S'' \<noteq> [] \<and>
   message (heap example_world ! 0) = ''M'' \<and>
   (\<exists>st0 st1.
      resolve_payload example_collaborators example_world (Payload 0) = Inr (st0, 0) \<and>
      message (heap st0 ! 0) = ''M'' @ [CHR 0x0A] @ ''S'' \<and>
      autoGeneratedStackTrace (heap st0 ! 0) = None \<and>
      reportManualError example_collaborators example_world (Payload 0)
        (Obj 1) Undefined (Fn 1) = Inr (st1, 0) \<and>
      autoGeneratedStackTrace (heap st1 ! 0) = None \<and>
      message (heap st1 ! 0) = ''M'' @ [CHR 0x0A] @ ''S'' \<and>
      (\<exists>st2. reportManualError example_collaborators st1 (Payload 0)
                Undefined Undefined Undefined = Inr (st2, 0) \<and>
             autoGeneratedStackTrace (heap st2 ! 0) = None \<and>
             message (heap st2 ! 0) = ''M'' @ [CHR 0x0A] @ ''S''))"
proof -
  have h1: "(0::nat) < length (heap example_world)"
    by (simp add: example_world_def)
  have h2: "autoGeneratedStackTrace (heap example_world ! 0) = Some ''S''"
    by (simp add: example_world_def marked_payload_def)
  have h3: "''S'' \<noteq> []"
    by simp
  have h4: "message (heap example_world ! 0) = ''M''"
    by (simp add: example_world_def marked_payload_def)
  from marker_consumed_once [OF h1 h2 h3 h4, of example_collaborators
      "Obj 1" Undefined "Fn 1" Undefined Undefined Undefined]
  obtain st0 st1 st2 where
    "resolve_payload example_collaborators example_world (Payload 0) = Inr (st0, 0)"
    "message (heap st0 ! 0) = ''M'' @ [CHR 0x0A] @ ''S''"
    "autoGeneratedStackTrace (heap st0 ! 0) = None"
    "reportManualError example_collaborators example_world (Payload 0)
        (Obj 1) Undefined (Fn 1) = Inr (st1, 0)"
    "autoGeneratedStackTrace (heap st1 ! 0) = None"
    "message (heap st1 ! 0) = ''M'' @ [CHR 0x0A] @ ''S''"
    "reportManualError example_collaborators st1 (Payload 0)
                Undefined Undefined Undefined = Inr (st2, 0)"
    "autoGeneratedStackTrace (heap st2 ! 0) = None"
    "message (heap st2 ! 0) = ''M'' @ [CHR 0x0A] @ ''S''"
    by (auto simp: arg_simps)
  with h1 h2 h3 h4 show ?thesis
    by blast
qed

section \<open>The message override\<close>

text \<open>
  C3. When the resolved additional message is a string and the call returns, the message
  of the reported payload is that string, whatever the payload held before (a stack trace
  appended in the same call included): the override is the last change made to the store
  before \<open>sendError\<close>.
\<close>

theorem override_is_final_message:
  assumes "reportManualError env st err r m c = Inr (st', a)"
    and "isString (additionalMessage (normalize_args \<lparr>request = r, additionalMessage = m, callback = c\<rparr>))"
  shows "message (heap st' ! a) =
           str_of (additionalMessage (normalize_args \<lparr>request = r, additionalMessage = m, callback = c\<rparr>)) \<and>
         (\<exists>st2. st' = sendError a (callback (normalize_args \<lparr>request = r, additionalMessage = m, callback = c\<rparr>))
                        (update_payload a
                           (setMessage (str_of (additionalMessage
                              (normalize_args \<lparr>request = r, additionalMessage = m, callback = c\<rparr>)))) st2))"
proof -
  let ?n = "normalize_args \<lparr>request = r, additionalMessage = m, callback = c\<rparr>"
  from assms(1) obtain st1 where res: "resolve_payload env st err = Inr (st1, a)"
    by (rule report_returns)
  have st': "st' = sendError a (callback ?n)
               (override_message (additionalMessage ?n) a (merge_request env (request ?n) a st1))"
    using assms(1) report_after_resolve [OF res, of r m c] by simp
  have "a < length (heap st1)"
    using res by (rule resolve_payload_in_store)
  then have "message (heap st' ! a) = str_of (additionalMessage ?n)"
    using assms(2) by (simp add: st' finish_heap setMessage_def)
  moreover have "st' = sendError a (callback ?n)
      (update_payload a (setMessage (str_of (additionalMessage ?n)))
         (merge_request env (request ?n) a st1))"
    using assms(2) by (simp add: st' override_message_def)
  ultimately show ?thesis by blast
qed

theorem override_is_final_message_witness:
  "\<exists>st' a.
     reportManualError example_collaborators example_world (Payload 0)
       (Str ''override'') (Fn 3) Undefined = Inr (st', a) \<and>
     isString (additionalMessage
       (normalize_args \<lparr>request = Str ''override'', additionalMessage = Fn 3, callback = Undefined\<rparr>)) \<and>
     message (heap st' ! a) = ''override''"
proof -
  obtain st' a where rep: "reportManualError example_collaborators example_world (Payload 0)
       (Str ''override'') (Fn 3) Undefined = Inr (st', a)"
    by (simp add: run_simps arg_simps example_simps)
  have str: "isString (additionalMessage
       (normalize_args \<lparr>request = Str ''override'', additionalMessage = Fn 3, callback = Undefined\<rparr>))"
    by (simp add: arg_simps)
  from override_is_final_message [OF rep str] rep str show ?thesis
    by (auto simp: arg_simps)
qed

section \<open>What is returned and what is sent\<close>

text \<open>
  C4. A call that completes returns a reference to an \<^verbatim>\<open>ErrorMessage\<close> instance of the
  store, and the reference given to \<open>sendError\<close> in that call (the last and only one
  recorded by it) is the same reference; a payload instance passed in is returned itself,
  not a copy.
\<close>

theorem returned_payload_is_sent:
  assumes "reportManualError env st err r m c = Inr (st', a)"
  shows "is_ErrorMessage st' (Payload a) \<and> sent st' \<noteq> [] \<and> fst (last (sent st')) = a \<and>
         length (sent st') = Suc (length (sent st)) \<and>
         (is_ErrorMessage st err \<longrightarrow> err = Payload a)"
proof -
  let ?n = "normalize_args \<lparr>request = r, additionalMessage = m, callback = c\<rparr>"
  from assms obtain st1 where res: "resolve_payload env st err = Inr (st1, a)"
    by (rule report_returns)
  have st': "st' = sendError a (callback ?n)
               (override_message (additionalMessage ?n) a (merge_request env (request ?n) a st1))"
    using assms report_after_resolve [OF res, of r m c] by simp
  have "a < length (heap st1)"
    using res by (rule resolve_payload_in_store)
  then have inst: "is_ErrorMessage st' (Payload a)"
    by (simp add: is_ErrorMessage_def st' finish_length)
  have snt: "sent st' = sent st @ [(a, callback ?n)]"
    using resolve_payload_sent [OF res] by (simp add: st' finish_sent)
  have same: "is_ErrorMessage st err \<longrightarrow> err = Payload a"
  proof
    assume "is_ErrorMessage st err"
    then obtain b where b: "err = Payload b" "b < length (heap st)"
      by (rule is_ErrorMessage_cases)
    with res show "err = Payload a"
      by (auto simp: resolve_payload_def is_ErrorMessage_def Let_def split: if_splits)
  qed
  from inst snt same show ?thesis by simp
qed

theorem returned_payload_is_sent_witness:
  "\<exists>st' a.
     reportManualError example_collaborators example_world (Str ''boom'')
       (Obj 7) Undefined Undefined = Inr (st', a) \<and>
     is_ErrorMessage st' (Payload a) \<and> sent st' \<noteq> [] \<and> fst (last (sent st')) = a \<and>
     length (sent st') = Suc (length (sent example_world))"
proof -
  obtain st' a where rep: "reportManualError example_collaborators example_world (Str ''boom'')
       (Obj 7) Undefined Undefined = Inr (st', a)"
    by (simp add: run_simps arg_simps example_simps)
  from returned_payload_is_sent [OF rep] rep show ?thesis
    by blast
qed

text \<open>
  C10. A call that returns has called \<open>sendError\<close> exactly once, with the payload it
  returns and the resolved callback value as it is (\<open>Undefined\<close> when none was given).
  Every call on a payload instance returns, with or without a marker, and so does every
  call on a raw value that the populator accepts.
\<close>

theorem sendError_exactly_once:
  "(reportManualError env st err r m c = Inr (st', a) \<longrightarrow>
      sent st' = sent st @ [(a, callback (normalize_args \<lparr>request = r, additionalMessage = m, callback = c\<rparr>))]) \<and>
   (is_ErrorMessage st err \<longrightarrow>
      (\<exists>st1. reportManualError env st err r m c = Inr (st1, addr_of err))) \<and>
   (\<not> is_ErrorMessage st err \<and>
    populateErrorMessage env err
      (setServiceContext (service (getServiceContext env)) (version (getServiceContext env))
         new_ErrorMessage) = Inr em' \<longrightarrow>
      (\<exists>st1. reportManualError env st err r m c = Inr (st1, length (heap st))))"
proof (intro conjI impI)
  let ?n = "normalize_args \<lparr>request = r, additionalMessage = m, callback = c\<rparr>"
  assume rep: "reportManualError env st err r m c = Inr (st', a)"
  then obtain st1 where res: "resolve_payload env st err = Inr (st1, a)"
    by (rule report_returns)
  have st': "st' = sendError a (callback ?n)
               (override_message (additionalMessage ?n) a (merge_request env (request ?n) a st1))"
    using rep report_after_resolve [OF res, of r m c] by simp
  show "sent st' = sent st @ [(a, callback ?n)]"
    using resolve_payload_sent [OF res] by (simp add: st' finish_sent)
next
  assume "is_ErrorMessage st err"
  then obtain b where b: "err = Payload b" "b < length (heap st)"
    by (rule is_ErrorMessage_cases)
  then obtain st0 where "resolve_payload env st err = Inr (st0, b)"
    by (cases "has_marker (heap st ! b)")
      (simp_all add: resolve_payload_marked resolve_payload_unmarked)
  from report_after_resolve [OF this, of r m c] b
  show "\<exists>st1. reportManualError env st err r m c = Inr (st1, addr_of err)"
    by auto
next
  assume "\<not> is_ErrorMessage st err \<and>
    populateErrorMessage env err
      (setServiceContext (service (getServiceContext env)) (version (getServiceContext env))
         new_ErrorMessage) = Inr em'"
  then have "resolve_payload env st err = Inr (st\<lparr>heap := heap st @ [em']\<rparr>, length (heap st))"
    by (simp add: resolve_payload_raw)
  from report_after_resolve [OF this, of r m c]
  show "\<exists>st1. reportManualError env st err r m c = Inr (st1, length (heap st))"
    by auto
qed

theorem sendError_exactly_once_witness:
  "reportManualError example_collaborators example_world (Str ''boom'') (Str ''m'') (Fn 5) Undefined =
     Inr (sendError 2 (Fn 5)
            (example_world\<lparr>heap := heap example_world @
               [new_ErrorMessage\<lparr>serviceName := Some ''node'', serviceVersion := Some ''1.0'',
                  message := ''m''\<rparr>]\<rparr>), 2) \<and>
   sent (sendError 2 (Fn 5)
            (example_world\<lparr>heap := heap example_world @
               [new_ErrorMessage\<lparr>serviceName := Some ''node'', serviceVersion := Some ''1.0'',
                  message := ''m''\<rparr>]\<rparr>)) = sent example_world @ [(2, Fn 5)] \<and>
   is_ErrorMessage example_world (Payload 1) \<and>
   (\<exists>st1. reportManualError example_collaborators example_world (Payload 1)
            Undefined Undefined Undefined = Inr (st1, 1))"
proof -
  let ?st = "sendError 2 (Fn 5)
            (example_world\<lparr>heap := heap example_world @
               [new_ErrorMessage\<lparr>serviceName := Some ''node'', serviceVersion := Some ''1.0'',
                  message := ''m''\<rparr>]\<rparr>)"
  have rep: "reportManualError example_collaborators example_world (Str ''boom'') (Str ''m'') (Fn 5)
      Undefined = Inr (?st, 2)"
    by (simp add: run_simps arg_simps example_simps)
  have inst: "is_ErrorMessage example_world (Payload 1)"
    by (simp add: is_ErrorMessage_def example_world_def)
  from sendError_exactly_once [of example_collaborators example_world "Str ''boom''"
      "Str ''m''" "Fn 5" Undefined ?st 2] rep
  have "sent ?st = sent example_world @ [(2, Fn 5)]"
    by (simp add: arg_simps)
  moreover from sendError_exactly_once [of example_collaborators example_world "Payload 1"
      Undefined Undefined Undefined] inst
  have "\<exists>st1. reportManualError example_collaborators example_world (Payload 1)
            Undefined Undefined Undefined = Inr (st1, 1)"
    by simp
  ultimately show ?thesis
    using rep inst by blast
qed

section \<open>The warning for a payload without a marker\<close>

text \<open>
  C7. A call on a payload instance that carries no marker gives exactly one line to
  \<open>logger.warn\<close>, the missing stack trace warning with the payload's message, and still
  calls \<open>sendError\<close> with that payload. No call of any kind gives more than one line to
  the logger, and every call that returns has called \<open>sendError\<close> once.
\<close>

theorem missing_trace_warning_once:
  "(a < length (heap st) \<and> \<not> has_marker (heap st ! a) \<longrightarrow>
      (\<exists>st'. reportManualError env st (Payload a) r m c = Inr (st', a) \<and>
         warnings st' = warnings st @ [missing_trace_warning (message (heap st ! a))] \<and>
         sent st' = sent st @
           [(a, callback (normalize_args \<lparr>request = r, additionalMessage = m, callback = c\<rparr>))])) \<and>
   (reportManualError env st err r m c = Inr (st'', b) \<longrightarrow>
      length (warnings st'') \<le> Suc (length (warnings st)) \<and>
      length (sent st'') = Suc (length (sent st)))"
proof (intro conjI impI)
  let ?n = "normalize_args \<lparr>request = r, additionalMessage = m, callback = c\<rparr>"
  let ?w = "logger_warn (missing_trace_warning (message (heap st ! a))) st"
  let ?st' = "sendError a (callback ?n)
                (override_message (additionalMessage ?n) a (merge_request env (request ?n) a ?w))"
  assume "a < length (heap st) \<and> \<not> has_marker (heap st ! a)"
  then have "resolve_payload env st (Payload a) = Inr (?w, a)"
    by (simp add: resolve_payload_unmarked)
  then have "reportManualError env st (Payload a) r m c = Inr (?st', a)"
    by (rule report_after_resolve)
  moreover have "warnings ?st' = warnings st @ [missing_trace_warning (message (heap st ! a))]"
    by (simp add: finish_warnings logger_warn_def)
  moreover have "sent ?st' = sent st @ [(a, callback ?n)]"
    by (simp add: finish_sent logger_warn_def)
  ultimately show "\<exists>st'. reportManualError env st (Payload a) r m c = Inr (st', a) \<and>
         warnings st' = warnings st @ [missing_trace_warning (message (heap st ! a))] \<and>
         sent st' = sent st @ [(a, callback ?n)]"
    by blast
next
  let ?n = "normalize_args \<lparr>request = r, additionalMessage = m, callback = c\<rparr>"
  assume rep: "reportManualError env st err r m c = Inr (st'', b)"
  then obtain st1 where res: "resolve_payload env st err = Inr (st1, b)"
    by (rule report_returns)
  have st'': "st'' = sendError b (callback ?n)
               (override_message (additionalMessage ?n) b (merge_request env (request ?n) b st1))"
    using rep report_after_resolve [OF res, of r m c] by simp
  show "length (warnings st'') \<le> Suc (length (warnings st))"
    using resolve_payload_warnings [OF res] by (simp add: st'' finish_warnings)
  show "length (sent st'') = Suc (length (sent st))"
    using resolve_payload_sent [OF res] by (simp add: st'' finish_sent)
qed

theorem missing_trace_warning_once_witness:
  "(1::nat) < length (heap example_world) \<and> \<not> has_marker (heap example_world ! 1) \<and>
   (\<exists>st'. reportManualError example_collaborators example_world (Payload 1)
            Undefined Undefined (Fn 2) = Inr (st', 1) \<and>
      warnings st' = [missing_trace_warning ''by hand''] \<and>
      sent st' = [(1, Fn 2)] \<and>
      length (warnings st') \<le> Suc (length (warnings example_world)) \<and>
      length (sent st') = Suc (length (sent example_world)))"
proof -
  have pre: "(1::nat) < length (heap example_world) \<and> \<not> has_marker (heap example_world ! 1)"
    by (simp add: example_simps has_marker_def)
  have "\<exists>st'. reportManualError example_collaborators example_world (Payload 1)
            Undefined Undefined (Fn 2) = Inr (st', 1) \<and>
      warnings st' = warnings example_world @
        [missing_trace_warning (message (heap example_world ! 1))] \<and>
      sent st' = sent example_world @
        [(1, callback (normalize_args
           \<lparr>request = Undefined, additionalMessage = Undefined, callback = Fn 2\<rparr>))]"
    using pre missing_trace_warning_once [where a = 1 and st = example_world
        and env = example_collaborators and r = Undefined and m = Undefined and c = "Fn 2"
        and err = Undefined and st'' = example_world and b = 0]
    by blast
  then obtain st' where st':
    "reportManualError example_collaborators example_world (Payload 1)
            Undefined Undefined (Fn 2) = Inr (st', 1)"
    "warnings st' = [missing_trace_warning ''by hand'']"
    "sent st' = [(1, Fn 2)]"
    by (auto simp: arg_simps example_world_def hand_built_payload_def)
  from missing_trace_warning_once [where err = "Payload 1" and st = example_world
        and env = example_collaborators and r = Undefined and m = Undefined and c = "Fn 2"
        and st'' = st' and b = 1 and a = 1] st'(1)
  have "length (warnings st') \<le> Suc (length (warnings example_world)) \<and>
      length (sent st') = Suc (length (sent example_world))"
    by blast
  with pre st' show ?thesis
    by blast
qed

section \<open>Request information\<close>

text \<open>
  C6. When the resolved request is an object, the extractor is applied to it and its
  result is merged into the http context the payload has after the payload stage (for a
  payload instance passed in: the http context it came with): every key of the extraction
  result gets the extracted value, every other key keeps its value. When the resolved
  request is not an object (absent, for one), the http context is not touched.
\<close>

theorem request_information_merged:
  assumes "reportManualError env st err r m c = Inr (st', a)"
  shows "\<exists>st1. resolve_payload env st err = Inr (st1, a) \<and>
           (is_ErrorMessage st err \<longrightarrow> httpRequest (heap st1 ! a) = httpRequest (heap st ! a)) \<and>
           (isObject (request (normalize_args \<lparr>request = r, additionalMessage = m, callback = c\<rparr>)) \<longrightarrow>
              httpRequest (heap st' ! a) =
                httpRequest (heap st1 ! a) ++
                  manualRequestInformationExtractor env
                    (request (normalize_args \<lparr>request = r, additionalMessage = m, callback = c\<rparr>)) \<and>
              (\<forall>k v. manualRequestInformationExtractor env
                        (request (normalize_args \<lparr>request = r, additionalMessage = m, callback = c\<rparr>)) k = Some v
                     \<longrightarrow> httpRequest (heap st' ! a) k = Some v) \<and>
              (\<forall>k. manualRequestInformationExtractor env
                        (request (normalize_args \<lparr>request = r, additionalMessage = m, callback = c\<rparr>)) k = None
                     \<longrightarrow> httpRequest (heap st' ! a) k = httpRequest (heap st1 ! a) k)) \<and>
           (\<not> isObject (request (normalize_args \<lparr>request = r, additionalMessage = m, callback = c\<rparr>)) \<longrightarrow>
              httpRequest (heap st' ! a) = httpRequest (heap st1 ! a))"
proof -
  let ?n = "normalize_args \<lparr>request = r, additionalMessage = m, callback = c\<rparr>"
  from assms obtain st1 where res: "resolve_payload env st err = Inr (st1, a)"
    by (rule report_returns)
  have st': "st' = sendError a (callback ?n)
               (override_message (additionalMessage ?n) a (merge_request env (request ?n) a st1))"
    using assms report_after_resolve [OF res, of r m c] by simp
  have a: "a < length (heap st1)"
    using res by (rule resolve_payload_in_store)
  have http: "httpRequest (heap st' ! a) =
      (if isObject (request ?n)
       then httpRequest (heap st1 ! a) ++ manualRequestInformationExtractor env (request ?n)
       else httpRequest (heap st1 ! a))"
    by (simp only: st' finish_heap [OF a] final_fields)
  have prior: "is_ErrorMessage st err \<longrightarrow> httpRequest (heap st1 ! a) = httpRequest (heap st ! a)"
  proof
    assume "is_ErrorMessage st err"
    then obtain b where b: "err = Payload b" "b < length (heap st)"
      by (rule is_ErrorMessage_cases)
    show "httpRequest (heap st1 ! a) = httpRequest (heap st ! a)"
    proof (cases "has_marker (heap st ! b)")
      case True
      with res b show ?thesis
        by (auto simp: resolve_payload_marked update_payload_def consume_marker_fields)
    next
      case False
      with res b show ?thesis
        by (auto simp: resolve_payload_unmarked logger_warn_def)
    qed
  qed
  from res prior http show ?thesis
    by (auto simp: map_add_Some_iff map_add_def)
qed

theorem request_information_merged_witness:
  "\<exists>st' st1.
     reportManualError example_collaborators example_world (Payload 0)
       (Obj 7) Undefined Undefined = Inr (st', 0) \<and>
     resolve_payload example_collaborators example_world (Payload 0) = Inr (st1, 0) \<and>
     is_ErrorMessage example_world (Payload 0) \<and>
     isObject (request (normalize_args
       \<lparr>request = Obj 7, additionalMessage = Undefined, callback = Undefined\<rparr>)) \<and>
     httpRequest (heap example_world ! 0) ''method'' = Some (Str ''POST'') \<and>
     httpRequest (heap st' ! 0) ''method'' = Some (Str ''GET'') \<and>
     httpRequest (heap st' ! 0) ''url'' = Some (Str ''/x'') \<and>
     httpRequest (heap st' ! 0) ''userAgent'' = Some (Str ''curl'')"
proof -
  obtain st' where rep: "reportManualError example_collaborators example_world (Payload 0)
       (Obj 7) Undefined Undefined = Inr (st', 0)"
    by (simp add: run_simps arg_simps example_simps)
  have inst: "is_ErrorMessage example_world (Payload 0)"
    by (simp add: is_ErrorMessage_def example_world_def)
  have obj: "isObject (request (normalize_args
       \<lparr>request = Obj 7, additionalMessage = Undefined, callback = Undefined\<rparr>))"
    by (simp add: arg_simps)
  have ex: "manualRequestInformationExtractor example_collaborators
      (request (normalize_args
         \<lparr>request = Obj 7, additionalMessage = Undefined, callback = Undefined\<rparr>)) =
      [''method'' \<mapsto> Str ''GET'', ''url'' \<mapsto> Str ''/x'']"
    by (simp add: example_collaborators_def example_extractor_def)
  have old: "httpRequest (heap example_world ! 0) =
      [''method'' \<mapsto> Str ''POST'', ''userAgent'' \<mapsto> Str ''curl'']"
    by (simp add: example_world_def marked_payload_def)
  from request_information_merged [OF rep] inst obj
  obtain st1 where
    "resolve_payload example_collaborators example_world (Payload 0) = Inr (st1, 0)"
    "httpRequest (heap st1 ! 0) = httpRequest (heap example_world ! 0)"
    "httpRequest (heap st' ! 0) = httpRequest (heap st1 ! 0) ++
       manualRequestInformationExtractor example_collaborators
         (request (normalize_args
            \<lparr>request = Obj 7, additionalMessage = Undefined, callback = Undefined\<rparr>))"
    by blast
  with rep inst obj show ?thesis
    by (auto simp: ex old)
qed

section \<open>The service context at dispatch\<close>

text \<open>
  C5, as the claim states it, fails for a payload instance built by hand: the handler sets
  the service context only on a payload it constructs itself. Reporting the hand-built
  payload of the example, which has neither service name nor version, hands that payload
  to \<open>sendError\<close> with both still missing.
\<close>

theorem service_context_absent_counterexample:
  "reportManualError example_collaborators example_world (Payload 1)
     Undefined Undefined Undefined =
     Inr (sendError 1 Undefined
            (logger_warn (missing_trace_warning ''by hand'') example_world), 1) \<and>
   sent (sendError 1 Undefined
            (logger_warn (missing_trace_warning ''by hand'') example_world)) = [(1, Undefined)] \<and>
   serviceName (heap (sendError 1 Undefined
            (logger_warn (missing_trace_warning ''by hand'') example_world)) ! 1) = None \<and>
   serviceVersion (heap (sendError 1 Undefined
            (logger_warn (missing_trace_warning ''by hand'') example_world)) ! 1) = None"
  by (simp add: run_simps arg_simps example_simps)

text \<open>
  C5, amended. For a raw value a new payload is constructed and its service name and
  version are set from the configuration's service context before the populator is
  applied to it; nothing after the populator changes them, so the payload handed to
  \<open>sendError\<close> has the name and version the populator returned, which are the
  configuration's whenever the populator leaves them in place. For a payload instance
  passed in, the call neither sets nor tests them: the instance is handed to
  \<open>sendError\<close> with the service name and version it came with.
\<close>

theorem service_context_at_dispatch:
  assumes "reportManualError env st err r m c = Inr (st', a)"
  shows "(is_ErrorMessage st err \<longrightarrow>
            err = Payload a \<and>
            serviceName (heap st' ! a) = serviceName (heap st ! a) \<and>
            serviceVersion (heap st' ! a) = serviceVersion (heap st ! a)) \<and>
         (\<not> is_ErrorMessage st err \<longrightarrow>
            (\<exists>em0 em'.
               em0 = setServiceContext (service (getServiceContext env))
                       (version (getServiceContext env)) new_ErrorMessage \<and>
               serviceName em0 = Some (service (getServiceContext env)) \<and>
               serviceVersion em0 = Some (version (getServiceContext env)) \<and>
               populateErrorMessage env err em0 = Inr em' \<and>
               serviceName (heap st' ! a) = serviceName em' \<and>
               serviceVersion (heap st' ! a) = serviceVersion em')) \<and>
         (\<not> is_ErrorMessage st err \<and>
          (\<forall>em em'. populateErrorMessage env err em = Inr em' \<longrightarrow>
                     serviceName em' = serviceName em \<and> serviceVersion em' = serviceVersion em) \<longrightarrow>
            serviceName (heap st' ! a) = Some (service (getServiceContext env)) \<and>
            serviceVersion (heap st' ! a) = Some (version (getServiceContext env)))"
proof -
  let ?n = "normalize_args \<lparr>request = r, additionalMessage = m, callback = c\<rparr>"
  let ?em0 = "setServiceContext (service (getServiceContext env))
                (version (getServiceContext env)) new_ErrorMessage"
  from assms obtain st1 where res: "resolve_payload env st err = Inr (st1, a)"
    by (rule report_returns)
  have st': "st' = sendError a (callback ?n)
               (override_message (additionalMessage ?n) a (merge_request env (request ?n) a st1))"
    using assms report_after_resolve [OF res, of r m c] by simp
  have a: "a < length (heap st1)"
    using res by (rule resolve_payload_in_store)
  have keep: "serviceName (heap st' ! a) = serviceName (heap st1 ! a) \<and>
              serviceVersion (heap st' ! a) = serviceVersion (heap st1 ! a)"
    by (simp only: st' finish_heap [OF a] final_fields)
  have prebuilt: "is_ErrorMessage st err \<longrightarrow>
            err = Payload a \<and>
            serviceName (heap st1 ! a) = serviceName (heap st ! a) \<and>
            serviceVersion (heap st1 ! a) = serviceVersion (heap st ! a)"
  proof
    assume "is_ErrorMessage st err"
    then obtain b where b: "err = Payload b" "b < length (heap st)"
      by (rule is_ErrorMessage_cases)
    show "err = Payload a \<and>
            serviceName (heap st1 ! a) = serviceName (heap st ! a) \<and>
            serviceVersion (heap st1 ! a) = serviceVersion (heap st ! a)"
    proof (cases "has_marker (heap st ! b)")
      case True
      with res b show ?thesis
        by (auto simp: resolve_payload_marked update_payload_def consume_marker_fields)
    next
      case False
      with res b show ?thesis
        by (auto simp: resolve_payload_unmarked logger_warn_def)
    qed
  qed
  have raw: "\<not> is_ErrorMessage st err \<longrightarrow>
      (\<exists>em'. populateErrorMessage env err ?em0 = Inr em' \<and> heap st1 ! a = em')"
  proof
    assume "\<not> is_ErrorMessage st err"
    with res show "\<exists>em'. populateErrorMessage env err ?em0 = Inr em' \<and> heap st1 ! a = em'"
      by (auto simp: resolve_payload_raw split: sum.splits)
  qed
  have set0: "serviceName ?em0 = Some (service (getServiceContext env)) \<and>
              serviceVersion ?em0 = Some (version (getServiceContext env))"
    by (simp add: setServiceContext_def)
  show ?thesis
  proof (intro conjI impI)
    assume "is_ErrorMessage st err"
    with prebuilt keep show "err = Payload a"
      and "serviceName (heap st' ! a) = serviceName (heap st ! a)"
      and "serviceVersion (heap st' ! a) = serviceVersion (heap st ! a)"
      by simp_all
  next
    assume "\<not> is_ErrorMessage st err"
    with raw obtain em' where "populateErrorMessage env err ?em0 = Inr em'" "heap st1 ! a = em'"
      by blast
    with keep set0
    show "\<exists>em0 em'.
               em0 = ?em0 \<and>
               serviceName em0 = Some (service (getServiceContext env)) \<and>
               serviceVersion em0 = Some (version (getServiceContext env)) \<and>
               populateErrorMessage env err em0 = Inr em' \<and>
               serviceName (heap st' ! a) = serviceName em' \<and>
               serviceVersion (heap st' ! a) = serviceVersion em'"
      by simp
  next
    assume h: "\<not> is_ErrorMessage st err \<and>
          (\<forall>em em'. populateErrorMessage env err em = Inr em' \<longrightarrow>
                     serviceName em' = serviceName em \<and> serviceVersion em' = serviceVersion em)"
    with raw obtain em' where em': "populateErrorMessage env err ?em0 = Inr em'" "heap st1 ! a = em'"
      by blast
    with h have "serviceName em' = serviceName ?em0 \<and> serviceVersion em' = serviceVersion ?em0"
      by blast
    with keep set0 em'
    show "serviceName (heap st' ! a) = Some (service (getServiceContext env))"
      and "serviceVersion (heap st' ! a) = Some (version (getServiceContext env))"
      by simp_all
  qed
qed

theorem service_context_at_dispatch_witness:
  "\<exists>st' a st'' b.
     reportManualError example_collaborators example_world (Str ''boom'')
       Undefined Undefined Undefined = Inr (st', a) \<and>
     \<not> is_ErrorMessage example_world (Str ''boom'') \<and>
     serviceName (heap st' ! a) = Some ''node'' \<and> serviceVersion (heap st' ! a) = Some ''1.0'' \<and>
     reportManualError example_collaborators example_world (Payload 0)
       Undefined Undefined Undefined = Inr (st'', b) \<and>
     is_ErrorMessage example_world (Payload 0) \<and> b = 0 \<and>
     serviceName (heap st'' ! b) = Some ''node'' \<and> serviceVersion (heap st'' ! b) = Some ''1.0''"
proof -
  obtain st' a where rep: "reportManualError example_collaborators example_world (Str ''boom'')
       Undefined Undefined Undefined = Inr (st', a)"
    by (simp add: run_simps arg_simps example_simps)
  have raw: "\<not> is_ErrorMessage example_world (Str ''boom'')"
    by (simp add: is_ErrorMessage_def)
  have pop: "\<forall>em em'. populateErrorMessage example_collaborators (Str ''boom'') em = Inr em' \<longrightarrow>
                     serviceName em' = serviceName em \<and> serviceVersion em' = serviceVersion em"
    by (auto simp: example_collaborators_def example_populator_def setMessage_def)
  from service_context_at_dispatch [OF rep] raw pop
  have "serviceName (heap st' ! a) = Some (service (getServiceContext example_collaborators)) \<and>
        serviceVersion (heap st' ! a) = Some (version (getServiceContext example_collaborators))"
    by blast
  then have fresh: "serviceName (heap st' ! a) = Some ''node'' \<and>
                    serviceVersion (heap st' ! a) = Some ''1.0''"
    by (simp add: example_collaborators_def)
  obtain st'' b where rep': "reportManualError example_collaborators example_world (Payload 0)
       Undefined Undefined Undefined = Inr (st'', b)"
    by (simp add: run_simps arg_simps example_simps)
  have inst: "is_ErrorMessage example_world (Payload 0)"
    by (simp add: is_ErrorMessage_def example_world_def)
  from service_context_at_dispatch [OF rep'] inst
  have "Payload 0 = Payload b \<and>
        serviceName (heap st'' ! b) = serviceName (heap example_world ! b) \<and>
        serviceVersion (heap st'' ! b) = serviceVersion (heap example_world ! b)"
    by blast
  then have kept: "b = 0 \<and> serviceName (heap st'' ! b) = Some ''node'' \<and>
                   serviceVersion (heap st'' ! b) = Some ''1.0''"
    by (auto simp: example_world_def marked_payload_def)
  from rep raw fresh rep' inst kept show ?thesis
    by blast
qed

section \<open>Optional arguments of unexpected type\<close>




end
